theory Spec2Isabelle
  imports Main
begin

section \<open>The CSS language client (extensions/css/client/src/cssMain.ts)\<close>

text \<open>
  A shallow embedding of the client side of the CSS extension: the document color
  provider, the color requestor handed to the decoration renderer, the decorator
  switch read from the configuration, the second (anonymous) color provider and the
  command \<open>_css.applyCodeAction\<close>.

  Promises are modelled by their settled outcome, continuations registered with
  \<open>then\<close> by the function applied to a fulfilled outcome. What the host and the
  language client library provide (the request channel, the range converter,
  \<open>Color.fromHex\<close>, \<open>TextEditor.edit\<close>) is passed in as a parameter.
\<close>

subsection \<open>Protocol and host data\<close>

text \<open>A position and a range of the language server protocol.\<close>

record Position =
  line :: nat
  character :: nat

record ServerRange =
  range_start :: Position
  range_end :: Position

text \<open>The host's own position and range objects.\<close>

record CodePosition =
  code_line :: nat
  code_character :: nat

record HostRange =
  host_start :: CodePosition
  host_end :: CodePosition

text \<open>A protocol text edit: \<open>{ range, newText }\<close>.\<close>

record TextEdit =
  edit_range :: ServerRange
  newText :: string

record TextDocument =
  doc_uri :: string
  doc_version :: int
  doc_text :: string

record CancellationToken =
  isCancellationRequested :: bool

text \<open>
  \<open>new ColorInfo(range, color, format, availableFormats)\<close>. The anonymous provider
  passes \<open>undefined\<close> for the range and the color, which is \<open>None\<close> here.
\<close>

record 'c ColorInfo =
  ci_range :: "HostRange option"
  ci_color :: "'c option"
  ci_format :: string
  ci_availableFormats :: "string list"

text \<open>The outcome of a promise: fulfilled with a value, or rejected.\<close>

datatype 'a Settled = Fulfilled 'a | Rejected string

text \<open>\<open>p.then(f)\<close>: the continuation runs on a fulfilled promise only.\<close>

fun then_map :: "('a \<Rightarrow> 'b) \<Rightarrow> 'a Settled \<Rightarrow> 'b Settled" where
  "then_map f (Fulfilled x) = Fulfilled (f x)"
| "then_map f (Rejected e) = Rejected e"

datatype RequestType = RequestType string

definition ColorSymbolRequest_type :: RequestType where
  "ColorSymbolRequest_type = RequestType ''css/colorSymbols''"

text \<open>
  The language client, as far as this file uses it: \<open>sendRequest\<close> gives the outcome
  of a request of the given type with the given parameter, and \<open>asRange\<close> is
  \<open>client.protocol2CodeConverter.asRange\<close>.
\<close>

record LanguageClient =
  sendRequest :: "RequestType \<Rightarrow> string \<Rightarrow> ServerRange list Settled"
  asRange :: "ServerRange \<Rightarrow> HostRange"

subsection \<open>ColorProvider.provideDocumentColors\<close>

text \<open>
  The body of the callback given to \<open>ranges.map\<close>. The first argument is the host's
  \<open>Color.fromHex\<close>.
\<close>

definition colorInfoOf :: "(string \<Rightarrow> 'c) \<Rightarrow> LanguageClient \<Rightarrow> ServerRange \<Rightarrow> 'c ColorInfo" where
  "colorInfoOf fromHex client r =
     (let range = asRange client r;
          color = fromHex ''#000000'';
          format = ''#{red:X}{green:X}{blue:X}'';
          availableFormats = [format]
      in \<lparr>ci_range = Some range, ci_color = Some color, ci_format = format,
          ci_availableFormats = availableFormats\<rparr>)"

text \<open>
  \<open>await\<close> on a rejected request rejects the provider's own promise; the token
  parameter is never read.
\<close>

definition provideDocumentColors ::
  "(string \<Rightarrow> 'c) \<Rightarrow> LanguageClient \<Rightarrow> TextDocument \<Rightarrow> CancellationToken
     \<Rightarrow> 'c ColorInfo list Settled" where
  "provideDocumentColors fromHex client document token =
     (case sendRequest client ColorSymbolRequest_type (doc_uri document) of
        Rejected e \<Rightarrow> Rejected e
      | Fulfilled ranges \<Rightarrow> Fulfilled (map (colorInfoOf fromHex client) ranges))"

subsection \<open>The closures created once the client is ready\<close>

definition colorRequestor :: "LanguageClient \<Rightarrow> string \<Rightarrow> HostRange list Settled" where
  "colorRequestor client uri =
     then_map (\<lambda>ranges. map (asRange client) ranges)
       (sendRequest client ColorSymbolRequest_type uri)"

text \<open>
  The host configuration: \<open>workspace.getConfiguration().get<boolean>(key)\<close> is the
  lookup of the key, \<open>undefined\<close> (\<open>None\<close>) when the key has no value.
\<close>

record Workspace =
  configuration :: "string \<rightharpoonup> bool"

definition getConfiguration_get :: "Workspace \<Rightarrow> string \<Rightarrow> bool option" where
  "getConfiguration_get ws key = configuration ws key"

text \<open>A change of one setting by the user, between two calls.\<close>

definition updateConfiguration :: "string \<Rightarrow> bool \<Rightarrow> Workspace \<Rightarrow> Workspace" where
  "updateConfiguration key v ws = ws\<lparr>configuration := (configuration ws)(key \<mapsto> v)\<rparr>"

definition isDecoratorEnabled :: "Workspace \<Rightarrow> string \<Rightarrow> bool option" where
  "isDecoratorEnabled ws languageId =
     getConfiguration_get ws (languageId @ ''.colorDecorators.enable'')"

subsection \<open>The anonymous color provider\<close>







subsection \<open>The command \<open>_css.applyCodeAction\<close>\<close>

datatype Message = InformationMessage string | ErrorMessage string

record TextEditor =
  document :: TextDocument

text \<open>
  The part of the host's \<open>window\<close> that the command touches: the active editor, the
  messages shown so far (oldest first) and the edit batches handed to
  \<open>TextEditor.edit\<close> so far (oldest first).
\<close>

record Window =
  activeTextEditor :: "TextEditor option"
  messages :: "Message list"
  transactions :: "(HostRange \<times> string) list list"

definition showInformationMessage :: "string \<Rightarrow> Window \<Rightarrow> Window" where
  "showInformationMessage m w = w\<lparr>messages := messages w @ [InformationMessage m]\<rparr>"

definition showErrorMessage :: "string \<Rightarrow> Window \<Rightarrow> Window" where
  "showErrorMessage m w = w\<lparr>messages := messages w @ [ErrorMessage m]\<rparr>"

text \<open>\<open>mutator.replace(range, text)\<close> adds one replacement to the batch being built.\<close>

definition mutator_replace ::
  "(HostRange \<times> string) list \<Rightarrow> HostRange \<Rightarrow> string \<Rightarrow> (HostRange \<times> string) list" where
  "mutator_replace mutator r text = mutator @ [(r, text)]"

text \<open>The callback given to \<open>textEditor.edit\<close>: the loop over \<open>edits\<close>.\<close>

fun editCallback ::
  "LanguageClient \<Rightarrow> TextEdit list \<Rightarrow> (HostRange \<times> string) list \<Rightarrow> (HostRange \<times> string) list" where
  "editCallback client [] mutator = mutator"
| "editCallback client (edit # edits) mutator =
     editCallback client edits
       (mutator_replace mutator (asRange client (edit_range edit)) (newText edit))"

text \<open>
  \<open>hostEdit\<close> is the host's \<open>TextEditor.edit\<close>: given the document and the batch the
  callback built, its promise is fulfilled with the answer whether the batch was
  applied, together with the document as it is afterwards, or it is rejected. The
  continuation given to \<open>then\<close> runs in the first case only.
\<close>

definition applyCodeAction ::
  "(TextDocument \<Rightarrow> (HostRange \<times> string) list \<Rightarrow> (bool \<times> TextDocument) Settled)
     \<Rightarrow> LanguageClient \<Rightarrow> string \<Rightarrow> int \<Rightarrow> TextEdit list \<Rightarrow> Window \<Rightarrow> Window" where
  "applyCodeAction hostEdit client uri documentVersion edits w =
     (case activeTextEditor w of
        None \<Rightarrow> w
      | Some textEditor \<Rightarrow>
          if doc_uri (document textEditor) = uri then
            (let w1 = (if doc_version (document textEditor) \<noteq> documentVersion
                       then showInformationMessage
                              ''CSS fix is outdated and can't be applied to the document.'' w
                       else w);
                 batch = editCallback client edits [];
                 w2 = w1\<lparr>transactions := transactions w1 @ [batch]\<rparr>
             in case hostEdit (document textEditor) batch of
                  Rejected e \<Rightarrow> w2
                | Fulfilled (success, document') \<Rightarrow>
                    (let w3 = w2\<lparr>activeTextEditor := Some (textEditor\<lparr>document := document'\<rparr>)\<rparr>
                     in if \<not> success
                        then showErrorMessage
                               ''Failed to apply CSS fix to the document. Please consider opening an issue with steps to reproduce.''
                               w3
                        else w3))
          else w)"

subsection \<open>The range converter\<close>

text \<open>
  Modelled from the spec: \<open>protocol2CodeConverter.asRange\<close> is a function of the
  language client library and its body is not in this file. The spec describes it as
  a pure function without failure modes that keeps the line and character fields
  verbatim and changes the representation type only.
\<close>

definition protocol2CodeConverter_asRange :: "ServerRange \<Rightarrow> HostRange" where
  "protocol2CodeConverter_asRange r =
     \<lparr>host_start = \<lparr>code_line = line (range_start r), code_character = character (range_start r)\<rparr>,
      host_end = \<lparr>code_line = line (range_end r), code_character = character (range_end r)\<rparr>\<rparr>"

text \<open>
  Modelled from the spec: the reverse mapping, from the host's range back to the
  server's coordinates, which the spec's round-trip property refers to.
\<close>

definition code2ProtocolConverter_asRange :: "HostRange \<Rightarrow> ServerRange" where
  "code2ProtocolConverter_asRange r =
     \<lparr>range_start = \<lparr>line = code_line (host_start r), character = code_character (host_start r)\<rparr>,
      range_end = \<lparr>line = code_line (host_end r), character = code_character (host_end r)\<rparr>\<rparr>"

subsection \<open>Concrete inputs\<close>

text \<open>
  The scenario of the spec: \<open>a.css\<close> at version 3 holds \<open>color: #fff;\<close>, and the
  server reports the range from character 7 to character 11 of line 0.
\<close>

definition exRange :: ServerRange where
  "exRange = \<lparr>range_start = \<lparr>line = 0, character = 7\<rparr>,
              range_end = \<lparr>line = 0, character = 11\<rparr>\<rparr>"

definition exDocument :: TextDocument where
  "exDocument = \<lparr>doc_uri = ''a.css'', doc_version = 3, doc_text = ''color: #fff;''\<rparr>"

definition exClient :: LanguageClient where
  "exClient = \<lparr>sendRequest = (\<lambda>t uri. if t = ColorSymbolRequest_type \<and> uri = ''a.css''
                                       then Fulfilled [exRange] else Fulfilled []),
               asRange = protocol2CodeConverter_asRange\<rparr>"

definition exWindow :: Window where
  "exWindow = \<lparr>activeTextEditor = Some \<lparr>document = exDocument\<rparr>, messages = [],
               transactions = []\<rparr>"

text \<open>
  A host for single-line documents: it applies a batch of one replacement by
  splicing the new text between the two character offsets and bumping the version,
  and refuses every other batch.
\<close>

fun exHostEdit ::
  "TextDocument \<Rightarrow> (HostRange \<times> string) list \<Rightarrow> (bool \<times> TextDocument) Settled" where
  "exHostEdit d [(r, t)] =
     Fulfilled (True, d\<lparr>doc_version := doc_version d + 1,
              doc_text := take (code_character (host_start r)) (doc_text d) @ t
                          @ drop (code_character (host_end r)) (doc_text d)\<rparr>)"
| "exHostEdit d batch = Fulfilled (False, d)"

definition exEdits :: "TextEdit list" where
  "exEdits = [\<lparr>edit_range = exRange, newText = ''#ffffff''\<rparr>]"

definition exFromHex :: "string \<Rightarrow> string" where
  "exFromHex hex = hex"

definition exCancelled :: CancellationToken where
  "exCancelled = \<lparr>isCancellationRequested = True\<rparr>"




section \<open>Properties\<close>

subsection \<open>Auxiliary facts\<close>

lemma editCallback_map:
  "editCallback client edits mutator =
     mutator @ map (\<lambda>edit. (asRange client (edit_range edit), newText edit)) edits"
  by (induction edits arbitrary: mutator) (simp_all add: mutator_replace_def)


lemma asRange_roundtrip:
  "code2ProtocolConverter_asRange (protocol2CodeConverter_asRange r) = r"
  by (simp add: code2ProtocolConverter_asRange_def protocol2CodeConverter_asRange_def)

lemma asRange_inj: "inj protocol2CodeConverter_asRange"
  by (rule inj_on_inverseI [where g = code2ProtocolConverter_asRange]) (rule asRange_roundtrip)

subsection \<open>The color provider\<close>

text \<open>
  C2, as stated, fails: the provider never reads its token. With \<open>a.css\<close> and a token
  that already signals cancellation, the one ColorSymbol of the server's response is
  delivered all the same.
\<close>

theorem provideDocumentColors_cancelled_counterexample:
  "isCancellationRequested exCancelled \<and>
   provideDocumentColors exFromHex exClient exDocument exCancelled =
     Fulfilled [\<lparr>ci_range = Some \<lparr>host_start = \<lparr>code_line = 0, code_character = 7\<rparr>,
                                   host_end = \<lparr>code_line = 0, code_character = 11\<rparr>\<rparr>,
                 ci_color = Some ''#000000'', ci_format = ''#{red:X}{green:X}{blue:X}'',
                 ci_availableFormats = [''#{red:X}{green:X}{blue:X}'']\<rparr>]"
  by (simp add: provideDocumentColors_def exClient_def exDocument_def exCancelled_def
      exFromHex_def exRange_def colorInfoOf_def Let_def protocol2CodeConverter_asRange_def)

text \<open>
  C2, amended: what provideDocumentColors delivers does not depend on the
  cancellation token. A call resolves to the same outcome as the call with a token
  that does not signal cancellation.
\<close>

theorem provideDocumentColors_ignores_token:
  "provideDocumentColors fromHex client doc token =
     provideDocumentColors fromHex client doc \<lparr>isCancellationRequested = False\<rparr>"
  by (simp add: provideDocumentColors_def)

text \<open>
  C3: for every sequence of ServerRanges that the \<open>css/colorSymbols\<close> request
  returns, provideDocumentColors resolves to a list of the same length whose i-th
  ColorSymbol carries the translation of the i-th ServerRange: one per range, in
  order, nothing filtered, reordered or merged.
\<close>

theorem provideDocumentColors_one_per_range:
  assumes "sendRequest client ColorSymbolRequest_type (doc_uri doc) = Fulfilled ranges"
  shows "\<exists>infos. provideDocumentColors fromHex client doc token = Fulfilled infos
           \<and> length infos = length ranges
           \<and> map ci_range infos = map (\<lambda>r. Some (asRange client r)) ranges
           \<and> (\<forall>i < length ranges. ci_range (infos ! i) = Some (asRange client (ranges ! i)))"
  using assms by (simp add: provideDocumentColors_def colorInfoOf_def Let_def comp_def)

text \<open>The theorem of C3 at the scenario of the spec.\<close>

theorem provideDocumentColors_one_per_range_witness:
  "sendRequest exClient ColorSymbolRequest_type (doc_uri exDocument) = Fulfilled [exRange]
   \<and> (\<exists>infos. provideDocumentColors exFromHex exClient exDocument exCancelled = Fulfilled infos
           \<and> length infos = length [exRange]
           \<and> map ci_range infos = map (\<lambda>r. Some (asRange exClient r)) [exRange]
           \<and> (\<forall>i < length [exRange]. ci_range (infos ! i) = Some (asRange exClient ([exRange] ! i))))"
proof -
  have h: "sendRequest exClient ColorSymbolRequest_type (doc_uri exDocument) = Fulfilled [exRange]"
    by (simp add: exClient_def exDocument_def)
  from provideDocumentColors_one_per_range [OF h, of exFromHex exCancelled] h
  show ?thesis by blast
qed

text \<open>
  C4: every ColorSymbol that provideDocumentColors emits carries the color
  \<open>Color.fromHex('#000000')\<close>, whatever the document and the ranges are, the format
  string \<open>#{red:X}{green:X}{blue:X}\<close>, and a list of available formats that holds
  exactly that format string.
\<close>

theorem provideDocumentColors_fixed_payload:
  assumes "provideDocumentColors fromHex client doc token = Fulfilled infos"
    and "info \<in> set infos"
  shows "ci_color info = Some (fromHex ''#000000'')
         \<and> ci_format info = ''#{red:X}{green:X}{blue:X}''
         \<and> ci_availableFormats info = [ci_format info]
         \<and> ci_availableFormats info = [''#{red:X}{green:X}{blue:X}'']"
  using assms
  by (auto simp: provideDocumentColors_def colorInfoOf_def Let_def split: Settled.splits)

text \<open>The theorem of C4 at the scenario of the spec.\<close>

theorem provideDocumentColors_fixed_payload_witness:
  "provideDocumentColors exFromHex exClient exDocument exCancelled =
     Fulfilled [colorInfoOf exFromHex exClient exRange]
   \<and> colorInfoOf exFromHex exClient exRange \<in> set [colorInfoOf exFromHex exClient exRange]
   \<and> ci_color (colorInfoOf exFromHex exClient exRange) = Some (exFromHex ''#000000'')
   \<and> ci_format (colorInfoOf exFromHex exClient exRange) = ''#{red:X}{green:X}{blue:X}''
   \<and> ci_availableFormats (colorInfoOf exFromHex exClient exRange)
       = [''#{red:X}{green:X}{blue:X}'']"
proof -
  have h: "provideDocumentColors exFromHex exClient exDocument exCancelled =
      Fulfilled [colorInfoOf exFromHex exClient exRange]"
    by (simp add: provideDocumentColors_def exClient_def exDocument_def)
  have m: "colorInfoOf exFromHex exClient exRange \<in> set [colorInfoOf exFromHex exClient exRange]"
    by simp
  from provideDocumentColors_fixed_payload [OF h m] h m show ?thesis by simp
qed

subsection \<open>The command \<open>_css.applyCodeAction\<close>\<close>

text \<open>
  C1: the code at the input of the spec's own scenario. \<open>a.css\<close> is at version 3 in
  the active editor and the fix was computed for version 2. The informational
  message is shown, and yet the batch is handed to the host, which applies it: the
  text of the document changes.
\<close>

theorem applyCodeAction_outdated_fix_is_applied:
  "applyCodeAction exHostEdit exClient ''a.css'' 2 exEdits exWindow =
     \<lparr>activeTextEditor = Some \<lparr>document =
        \<lparr>doc_uri = ''a.css'', doc_version = 4, doc_text = ''color: #ffffff;''\<rparr>\<rparr>,
      messages = [InformationMessage ''CSS fix is outdated and can't be applied to the document.''],
      transactions = [[(\<lparr>host_start = \<lparr>code_line = 0, code_character = 7\<rparr>,
                         host_end = \<lparr>code_line = 0, code_character = 11\<rparr>\<rparr>, ''#ffffff'')]]\<rparr>"
  by (simp add: applyCodeAction_def exWindow_def exDocument_def exEdits_def exClient_def
      exRange_def protocol2CodeConverter_asRange_def mutator_replace_def
      showInformationMessage_def)

text \<open>
  C5: when no editor is active, or the active editor shows another document than the
  target URI, applyCodeAction leaves the window as it is: no message is shown, no
  transaction is submitted and the document is untouched.
\<close>

theorem applyCodeAction_no_editor_noop:
  assumes "map_option (\<lambda>textEditor. doc_uri (document textEditor)) (activeTextEditor w) \<noteq> Some uri"
  shows "applyCodeAction hostEdit client uri documentVersion edits w = w"
  using assms by (cases "activeTextEditor w") (simp_all add: applyCodeAction_def)

text \<open>
  The theorem of C5 twice: the active editor shows \<open>a.css\<close> and the fix is for
  \<open>b.css\<close>; and there is no active editor at all.
\<close>

theorem applyCodeAction_no_editor_noop_witness:
  "map_option (\<lambda>textEditor. doc_uri (document textEditor)) (activeTextEditor exWindow)
     \<noteq> Some ''b.css''
   \<and> applyCodeAction exHostEdit exClient ''b.css'' 3 exEdits exWindow = exWindow
   \<and> map_option (\<lambda>textEditor. doc_uri (document textEditor))
        (activeTextEditor (exWindow\<lparr>activeTextEditor := None\<rparr>)) \<noteq> Some ''a.css''
   \<and> applyCodeAction exHostEdit exClient ''a.css'' 3 exEdits (exWindow\<lparr>activeTextEditor := None\<rparr>)
       = exWindow\<lparr>activeTextEditor := None\<rparr>"
proof -
  have h1: "map_option (\<lambda>textEditor. doc_uri (document textEditor)) (activeTextEditor exWindow)
      \<noteq> Some ''b.css''"
    by (simp add: exWindow_def exDocument_def)
  have h2: "map_option (\<lambda>textEditor. doc_uri (document textEditor))
      (activeTextEditor (exWindow\<lparr>activeTextEditor := None\<rparr>)) \<noteq> Some ''a.css''"
    by simp
  from applyCodeAction_no_editor_noop [OF h1, of exHostEdit exClient 3 exEdits]
    applyCodeAction_no_editor_noop [OF h2, of exHostEdit exClient 3 exEdits] h1 h2
  show ?thesis by blast
qed

text \<open>
  C6: when the active editor shows the target URI, applyCodeAction submits exactly
  one transaction to the host. Its batch holds, for every edit and in the order of
  the edits, the translated range with the new text, and the document afterwards is
  whatever the host made of that whole batch (the document as it was, when the
  host's promise is rejected): no part of the batch is applied by the command itself.
\<close>

theorem applyCodeAction_single_transaction:
  assumes "activeTextEditor w = Some textEditor"
    and "doc_uri (document textEditor) = uri"
  shows "transactions (applyCodeAction hostEdit client uri documentVersion edits w) =
           transactions w @ [map (\<lambda>edit. (asRange client (edit_range edit), newText edit)) edits]
         \<and> activeTextEditor (applyCodeAction hostEdit client uri documentVersion edits w) =
             (case hostEdit (document textEditor)
                     (map (\<lambda>edit. (asRange client (edit_range edit), newText edit)) edits) of
                Fulfilled (success, document') \<Rightarrow> Some (textEditor\<lparr>document := document'\<rparr>)
              | Rejected e \<Rightarrow> Some textEditor)"
  using assms
  by (simp add: applyCodeAction_def editCallback_map showInformationMessage_def
      showErrorMessage_def Let_def split: prod.splits Settled.splits)

text \<open>The theorem of C6 at the scenario of the spec, the versions matching.\<close>

theorem applyCodeAction_single_transaction_witness:
  "activeTextEditor exWindow = Some \<lparr>document = exDocument\<rparr>
   \<and> doc_uri (document \<lparr>document = exDocument\<rparr>) = ''a.css''
   \<and> transactions (applyCodeAction exHostEdit exClient ''a.css'' 3 exEdits exWindow) =
        [[(protocol2CodeConverter_asRange exRange, ''#ffffff'')]]
   \<and> activeTextEditor (applyCodeAction exHostEdit exClient ''a.css'' 3 exEdits exWindow) =
        Some \<lparr>document = \<lparr>doc_uri = ''a.css'', doc_version = 4, doc_text = ''color: #ffffff;''\<rparr>\<rparr>"
proof -
  have h1: "activeTextEditor exWindow = Some \<lparr>document = exDocument\<rparr>"
    by (simp add: exWindow_def)
  have h2: "doc_uri (document \<lparr>document = exDocument\<rparr>) = ''a.css''"
    by (simp add: exDocument_def)
  from applyCodeAction_single_transaction [OF h1 h2, of exHostEdit exClient 3 exEdits] h1 h2
  show ?thesis
    by (simp add: exWindow_def exEdits_def exClient_def exDocument_def exRange_def
        protocol2CodeConverter_asRange_def)
qed




subsection \<open>The range converter and the color requestor\<close>

text \<open>
  C8: the range converter is injective, keeps the four line and character fields
  as they are, and converting back gives the ServerRange it started from. Applied by
  the color requestor to a response, it keeps length and positions: the i-th host
  range is the translation of the i-th ServerRange, different ServerRanges give
  different host ranges, and converting the whole result back gives the response.
\<close>

theorem asRange_injective_order_preserving_roundtrip:
  assumes "asRange client = protocol2CodeConverter_asRange"
    and "sendRequest client ColorSymbolRequest_type uri = Fulfilled ranges"
  shows "inj protocol2CodeConverter_asRange
    \<and> (\<forall>r. code2ProtocolConverter_asRange (protocol2CodeConverter_asRange r) = r)
    \<and> (\<forall>r. code_line (host_start (protocol2CodeConverter_asRange r)) = line (range_start r)
          \<and> code_character (host_start (protocol2CodeConverter_asRange r)) = character (range_start r)
          \<and> code_line (host_end (protocol2CodeConverter_asRange r)) = line (range_end r)
          \<and> code_character (host_end (protocol2CodeConverter_asRange r)) = character (range_end r))
    \<and> (\<exists>hostRanges. colorRequestor client uri = Fulfilled hostRanges
          \<and> length hostRanges = length ranges
          \<and> (\<forall>i < length ranges. hostRanges ! i = protocol2CodeConverter_asRange (ranges ! i))
          \<and> (\<forall>i < length ranges. \<forall>j < length ranges.
                ranges ! i \<noteq> ranges ! j \<longrightarrow> hostRanges ! i \<noteq> hostRanges ! j)
          \<and> map code2ProtocolConverter_asRange hostRanges = ranges)"
proof -
  have fields: "\<forall>r. code_line (host_start (protocol2CodeConverter_asRange r)) = line (range_start r)
      \<and> code_character (host_start (protocol2CodeConverter_asRange r)) = character (range_start r)
      \<and> code_line (host_end (protocol2CodeConverter_asRange r)) = line (range_end r)
      \<and> code_character (host_end (protocol2CodeConverter_asRange r)) = character (range_end r)"
    by (simp add: protocol2CodeConverter_asRange_def)
  have req: "colorRequestor client uri = Fulfilled (map protocol2CodeConverter_asRange ranges)"
    using assms by (simp add: colorRequestor_def)
  have distinct: "\<forall>i < length ranges. \<forall>j < length ranges. ranges ! i \<noteq> ranges ! j \<longrightarrow>
      map protocol2CodeConverter_asRange ranges ! i \<noteq> map protocol2CodeConverter_asRange ranges ! j"
    using asRange_inj by (simp add: inj_eq)
  have again: "map code2ProtocolConverter_asRange (map protocol2CodeConverter_asRange ranges) = ranges"
    by (simp add: comp_def asRange_roundtrip)
  from req distinct again fields asRange_inj asRange_roundtrip show ?thesis by simp
qed

text \<open>The theorem of C8 at the scenario of the spec.\<close>

theorem asRange_injective_order_preserving_roundtrip_witness:
  "asRange exClient = protocol2CodeConverter_asRange
   \<and> sendRequest exClient ColorSymbolRequest_type ''a.css'' = Fulfilled [exRange]
   \<and> colorRequestor exClient ''a.css'' =
        Fulfilled [\<lparr>host_start = \<lparr>code_line = 0, code_character = 7\<rparr>,
                    host_end = \<lparr>code_line = 0, code_character = 11\<rparr>\<rparr>]
   \<and> code2ProtocolConverter_asRange (protocol2CodeConverter_asRange exRange) = exRange"
proof -
  have h1: "asRange exClient = protocol2CodeConverter_asRange"
    by (simp add: exClient_def)
  have h2: "sendRequest exClient ColorSymbolRequest_type ''a.css'' = Fulfilled [exRange]"
    by (simp add: exClient_def)
  from asRange_injective_order_preserving_roundtrip [OF h1 h2]
  obtain hostRanges where "colorRequestor exClient ''a.css'' = Fulfilled hostRanges"
    and "length hostRanges = length [exRange]"
    and "\<forall>i < length [exRange]. hostRanges ! i = protocol2CodeConverter_asRange ([exRange] ! i)"
    and rt: "code2ProtocolConverter_asRange (protocol2CodeConverter_asRange exRange) = exRange"
    by blast
  then have "colorRequestor exClient ''a.css'' = Fulfilled [protocol2CodeConverter_asRange exRange]"
    by (cases hostRanges) simp_all
  with h1 h2 rt show ?thesis
    by (simp add: protocol2CodeConverter_asRange_def exRange_def)
qed

subsection \<open>The decorator switch\<close>

text \<open>
  C9: for every state of the configuration and every languageId, isDecoratorEnabled
  returns the value that the configuration holds at that moment under the key
  \<open><languageId>.colorDecorators.enable\<close>. Nothing is remembered between calls: a call
  after the setting was changed returns the new value, and a call after it was
  changed again returns that one.
\<close>

theorem isDecoratorEnabled_reads_through:
  "isDecoratorEnabled ws languageId = configuration ws (languageId @ ''.colorDecorators.enable'')
   \<and> isDecoratorEnabled (updateConfiguration (languageId @ ''.colorDecorators.enable'') v ws)
        languageId = Some v
   \<and> isDecoratorEnabled
        (updateConfiguration (languageId @ ''.colorDecorators.enable'') (\<not> v)
          (updateConfiguration (languageId @ ''.colorDecorators.enable'') v ws))
        languageId = Some (\<not> v)"
  by (simp add: isDecoratorEnabled_def getConfiguration_get_def updateConfiguration_def)

subsection \<open>The anonymous color provider\<close>




end
